theory Spec2Isabelle
  imports Complex_Main "HOL-Library.AList" "HOL-Library.Char_ord" "HOL-Library.FSet" "HOL-Library.List_Lexorder"
begin

section \<open>Strings, integers and dictionaries of the host language\<close>

text \<open>
  The three programs read text files line by line. A line is a \<^typ>\<open>string\<close>; a character
  stands for one code point below 256. The functions of this section are the string
  methods the readers call: \<open>str.strip()\<close>, \<open>str.split()\<close>, \<open>str.startswith(p)\<close>,
  \<open>int(s)\<close> and \<open>str(n)\<close>. Integers are unbounded; the interpreter's configurable
  limit on the number of digits of a conversion is not modelled.
\<close>

definition isspace :: "char \<Rightarrow> bool" where
  "isspace c =
     (let n = (of_char c :: nat)
      in (9 \<le> n \<and> n \<le> 13) \<or> (28 \<le> n \<and> n \<le> 32) \<or> n = 133 \<or> n = 160)"

definition strip :: "string \<Rightarrow> string" where
  "strip s = rev (dropWhile isspace (rev (dropWhile isspace s)))"

function split_ws :: "string \<Rightarrow> string list" where
  "split_ws [] = []"
| "split_ws (c # cs) =
     (if isspace c then split_ws cs
      else (c # takeWhile (\<lambda>d. \<not> isspace d) cs) # split_ws (dropWhile (\<lambda>d. \<not> isspace d) cs))"
  by pat_completeness auto
termination
  by (relation "measure length") (auto simp: length_dropWhile_le le_imp_less_Suc)

definition startswith :: "string \<Rightarrow> string \<Rightarrow> bool" where
  "startswith p s = (take (length p) s = p)"

definition isdigit :: "char \<Rightarrow> bool" where
  "isdigit c = (let n = (of_char c :: nat) in 48 \<le> n \<and> n \<le> 57)"

definition digit_val :: "char \<Rightarrow> nat" where
  "digit_val c = of_char c - 48"

text \<open>
  \<open>int(s)\<close> on a token without whitespace: an optional sign, then decimal digits in
  groups separated by single underscores. Anything else raises \<open>ValueError\<close>, here
  \<^const>\<open>None\<close>.
\<close>

fun digits_tail :: "nat \<Rightarrow> string \<Rightarrow> nat option" where
  "digits_tail acc [] = Some acc"
| "digits_tail acc [c] = (if isdigit c then Some (acc * 10 + digit_val c) else None)"
| "digits_tail acc (c # d # ds) =
     (if isdigit c then digits_tail (acc * 10 + digit_val c) (d # ds)
      else if c = CHR ''_'' \<and> isdigit d then digits_tail (acc * 10 + digit_val d) ds
      else None)"

definition py_nat :: "string \<Rightarrow> nat option" where
  "py_nat s = (case s of [] \<Rightarrow> None
               | c # cs \<Rightarrow> if isdigit c then digits_tail (digit_val c) cs else None)"

definition py_int :: "string \<Rightarrow> int option" where
  "py_int s =
     (case s of
        [] \<Rightarrow> None
      | c # cs \<Rightarrow>
          if c = CHR ''+'' then map_option int (py_nat cs)
          else if c = CHR ''-'' then map_option (\<lambda>n. - int n) (py_nat cs)
          else map_option int (py_nat s))"

definition digit_char :: "nat \<Rightarrow> char" where
  "digit_char d = ''0123456789'' ! d"

function str_nat :: "nat \<Rightarrow> string" where
  "str_nat n =
     (if n < 10 then [digit_char n]
      else str_nat (n div 10) @ [digit_char (n mod 10)])"
  by pat_completeness auto
termination
  by (relation "measure id") auto

declare str_nat.simps [simp del]

definition str_int :: "int \<Rightarrow> string" where
  "str_int i = (if i < 0 then CHR ''-'' # str_nat (nat (- i)) else str_nat (nat i))"

text \<open>
  A \<open>dict\<close> keeps its keys in the order of their first insertion, and an assignment to a
  key that is present replaces the value in place: an association list under
  \<^const>\<open>AList.update\<close>. A \<open>Counter\<close> is a dict of counts; \<open>c[k] += 1\<close> reads a missing
  key as 0.
\<close>

type_synonym ('k, 'v) dict = "('k \<times> 'v) list"

definition counter_incr :: "'k \<Rightarrow> ('k, nat) dict \<Rightarrow> ('k, nat) dict" where
  "counter_incr k c = AList.update k (case map_of c k of None \<Rightarrow> 1 | Some n \<Rightarrow> n + 1) c"

definition counter_total :: "('k, nat) dict \<Rightarrow> nat" where
  "counter_total c = sum_list (map snd c)"

text \<open>
  Every reader runs its loop over the lines inside one \<open>try\<close> block. An exception raised
  by the loop body ends the loop; what the body had stored before stays in the reader's
  variables. No reader changes a variable in the iteration that raises before the raise.
\<close>

datatype exn =
  ValueError | IndexError | KeyError | OSError | OverflowError | ZeroDivisionError | MemoryError

fun for_lines :: "(string \<Rightarrow> 's \<Rightarrow> exn + 's) \<Rightarrow> string list \<Rightarrow> 's \<Rightarrow> 's \<times> exn option" where
  "for_lines body [] s = (s, None)"
| "for_lines body (l # ls) s =
     (case body l s of Inl e \<Rightarrow> (s, Some e) | Inr s' \<Rightarrow> for_lines body ls s')"

section \<open>Bookshelf Analyzer: the .nets reader\<close>

text \<open>
  \<open>parse_nets_file\<close> creates one dict object per \<open>net\<close> header, stores it in \<open>nets\<close> under
  the net's name and keeps it as \<open>current_net\<close>; a connection is appended through
  \<open>current_net\<close>. The objects live in a store (\<open>heap\<close>, addressed by position), \<open>nets\<close> and
  \<open>current_net\<close> hold addresses, so that an append through one is seen through the other.
\<close>

record connection =
  conn_instance :: string
  conn_pin :: string

record net =
  net_name :: string
  net_pin_count :: int
  net_connections :: "connection list"

record nets_state =
  heap :: "net list"
  nets :: "(string, nat) dict"
  net_count :: nat
  current_net :: "nat option"

definition nets_init :: nets_state where
  "nets_init = \<lparr>heap = [], nets = [], net_count = 0, current_net = None\<rparr>"

definition nets_line :: "string \<Rightarrow> nets_state \<Rightarrow> exn + nets_state" where
  "nets_line raw s =
     (let line = strip raw in
      if startswith ''net'' line then
        (let parts = split_ws line in
         if length parts \<ge> 3 then
           (case py_int (parts ! 2) of
              None \<Rightarrow> Inl ValueError
            | Some pc \<Rightarrow>
                (let a = length (heap s);
                     obj = \<lparr>net_name = parts ! 1, net_pin_count = pc, net_connections = []\<rparr>
                 in Inr (s\<lparr>heap := heap s @ [obj],
                           nets := AList.update (parts ! 1) a (nets s),
                           net_count := net_count s + 1,
                           current_net := Some a\<rparr>)))
         else Inr s)
      else if startswith [CHR 0x09] line \<and> current_net s \<noteq> None then
        (let conn = split_ws (strip line) in
         if length conn \<ge> 2 then
           (case current_net s of
              None \<Rightarrow> Inr s
            | Some a \<Rightarrow>
                (let obj = heap s ! a;
                     obj' = obj\<lparr>net_connections :=
                              net_connections obj @ [\<lparr>conn_instance = conn ! 0, conn_pin = conn ! 1\<rparr>]\<rparr>
                 in Inr (s\<lparr>heap := (heap s)[a := obj']\<rparr>)))
         else Inr s)
      else if startswith ''endnet'' line then Inr (s\<lparr>current_net := None\<rparr>)
      else Inr s)"

text \<open>
  The argument is the list \<open>f.readlines()\<close> returns, or \<^const>\<open>None\<close> when opening or
  reading the file raises. The result is the pair \<open>(nets, net_count)\<close>, with every address
  in \<open>nets\<close> replaced by the object it points to.
\<close>

definition nets_result :: "nets_state \<Rightarrow> (string, net) dict \<times> nat" where
  "nets_result s = (map (\<lambda>(k, a). (k, heap s ! a)) (nets s), net_count s)"

definition parse_nets_file :: "string list option \<Rightarrow> (string, net) dict \<times> nat" where
  "parse_nets_file file =
     (case file of
        None \<Rightarrow> nets_result nets_init
      | Some lines \<Rightarrow> nets_result (fst (for_lines nets_line lines nets_init)))"

section \<open>Bookshelf Analyzer: the .pl reader\<close>

record fixed_placement =
  fp_x :: int
  fp_y :: int
  fp_bel :: int

record pl_state =
  fixed_instances :: "(string, fixed_placement) dict"
  fixed_types :: "(string, nat) dict"

definition pl_init :: pl_state where
  "pl_init = \<lparr>fixed_instances = [], fixed_types = []\<rparr>"

text \<open>
  The first argument is the attribute \<open>self.instances\<close>: \<^const>\<open>None\<close> when the object
  has no such attribute, else the instance-to-cell-type dict of the .nodes reader.
\<close>

definition pl_line :: "(string, string) dict option \<Rightarrow> string \<Rightarrow> pl_state \<Rightarrow> exn + pl_state" where
  "pl_line instances raw s =
     (let line = strip raw in
      if line \<noteq> [] \<and> \<not> startswith ''#'' line then
        (let parts = split_ws line in
         if length parts \<ge> 5 \<and> last parts = ''FIXED'' then
           (let instance_name = parts ! 0 in
            case py_int (parts ! 1) of None \<Rightarrow> Inl ValueError | Some x \<Rightarrow>
            (case py_int (parts ! 2) of None \<Rightarrow> Inl ValueError | Some y \<Rightarrow>
            (case py_int (parts ! 3) of None \<Rightarrow> Inl ValueError | Some bel \<Rightarrow>
              (let s1 = s\<lparr>fixed_instances :=
                          AList.update instance_name \<lparr>fp_x = x, fp_y = y, fp_bel = bel\<rparr>
                            (fixed_instances s)\<rparr>
               in case (case instances of None \<Rightarrow> None | Some m \<Rightarrow> map_of m instance_name) of
                    Some instance_type \<Rightarrow>
                      Inr (s1\<lparr>fixed_types := counter_incr instance_type (fixed_types s1)\<rparr>)
                  | None \<Rightarrow>
                      Inr (s1\<lparr>fixed_types := counter_incr ''UNKNOWN'' (fixed_types s1)\<rparr>)))))
         else Inr s)
      else Inr s)"

definition parse_pl_file :: "(string, string) dict option \<Rightarrow> string list option \<Rightarrow> pl_state" where
  "parse_pl_file instances file =
     (case file of
        None \<Rightarrow> pl_init
      | Some lines \<Rightarrow> fst (for_lines (pl_line instances) lines pl_init))"

section \<open>Bookshelf Analyzer: the .scl reader and the streaming site counter\<close>

record site_map_entry =
  sme_x :: int
  sme_y :: int
  sme_type :: string

text \<open>
  \<open>sites\<close> maps a site name to the dict under its key \<open>'resources'\<close>. \<open>current_site\<close> is
  \<open>None\<close> or a string, and is tested for truth like one.
\<close>

record scl_state =
  sites :: "(string, (string, int) dict) dict"
  resources :: "(string, string list) dict"
  site_map :: "site_map_entry list"
  sitemap_dimensions :: "(int \<times> int) option"
  current_site :: "string option"
  in_resources :: bool
  in_sitemap :: bool
  site_map_count :: nat

definition scl_init :: scl_state where
  "scl_init = \<lparr>sites = [], resources = [], site_map = [], sitemap_dimensions = None,
               current_site = None, in_resources = False, in_sitemap = False,
               site_map_count = 0\<rparr>"

definition max_site_map_entries :: nat where
  "max_site_map_entries = 10000"

definition truthy :: "string option \<Rightarrow> bool" where
  "truthy v = (case v of None \<Rightarrow> False | Some t \<Rightarrow> t \<noteq> [])"

definition scl_line :: "string \<Rightarrow> scl_state \<Rightarrow> exn + scl_state" where
  "scl_line raw s =
     (let line = strip raw in
      if startswith ''SITEMAP'' line then
        (let s1 = s\<lparr>in_sitemap := True\<rparr>; parts = split_ws line in
         if length parts \<ge> 3 then
           (case py_int (parts ! 1) of None \<Rightarrow> Inr s1 | Some width \<Rightarrow>
            (case py_int (parts ! 2) of None \<Rightarrow> Inr s1 | Some height \<Rightarrow>
               Inr (s1\<lparr>sitemap_dimensions := Some (width, height)\<rparr>)))
         else Inr s1)
      else if startswith ''END SITEMAP'' line then Inr (s\<lparr>in_sitemap := False\<rparr>)
      else if startswith ''SITE'' line \<and> \<not> in_sitemap s then
        (let parts = split_ws line in
         if length parts < 2 then Inl IndexError
         else Inr (s\<lparr>current_site := Some (parts ! 1),
                      sites := AList.update (parts ! 1) [] (sites s)\<rparr>))
      else if startswith ''END SITE'' line then Inr (s\<lparr>current_site := None\<rparr>)
      else if truthy (current_site s) \<and> line \<noteq> [] \<and> \<not> in_sitemap s then
        (let parts = split_ws line in
         if length parts \<ge> 2 then
           (case py_int (parts ! 1) of None \<Rightarrow> Inl ValueError | Some resource_count \<Rightarrow>
            (case current_site s of None \<Rightarrow> Inl KeyError | Some cs \<Rightarrow>
             (case map_of (sites s) cs of None \<Rightarrow> Inl KeyError | Some res \<Rightarrow>
                Inr (s\<lparr>sites :=
                         AList.update cs (AList.update (parts ! 0) resource_count res) (sites s)\<rparr>))))
         else Inr s)
      else if startswith ''RESOURCES'' line then Inr (s\<lparr>in_resources := True\<rparr>)
      else if startswith ''END RESOURCES'' line then Inr (s\<lparr>in_resources := False\<rparr>)
      else if in_resources s \<and> line \<noteq> [] then
        (let parts = split_ws line in
         if length parts \<ge> 2 then
           Inr (s\<lparr>resources := AList.update (parts ! 0) (tl parts) (resources s)\<rparr>)
         else Inr s)
      else if in_sitemap s \<and> line \<noteq> [] \<and> \<not> startswith ''SITEMAP'' line then
        (let parts = split_ws line in
         if length parts \<ge> 3 \<and> site_map_count s < max_site_map_entries then
           (case py_int (parts ! 0) of None \<Rightarrow> Inr s | Some x \<Rightarrow>
            (case py_int (parts ! 1) of None \<Rightarrow> Inr s | Some y \<Rightarrow>
               Inr (s\<lparr>site_map := site_map s @ [\<lparr>sme_x = x, sme_y = y, sme_type = parts ! 2\<rparr>],
                      site_map_count := site_map_count s + 1\<rparr>)))
         else Inr s)
      else Inr s)"

text \<open>
  The reader returns \<open>(sites, resources, site_map, sitemap_dimensions)\<close>: the first four
  fields of the final state.
\<close>

definition parse_scl_file :: "string list option \<Rightarrow> scl_state" where
  "parse_scl_file file =
     (case file of
        None \<Rightarrow> scl_init
      | Some lines \<Rightarrow> fst (for_lines scl_line lines scl_init))"





section \<open>Bookshelf Analyzer: the .wts reader\<close>

text \<open>
  The reader converts the second token with \<open>float(s)\<close>. The conversion is a parameter:
  \<^const>\<open>None\<close> where it raises \<open>ValueError\<close>.
\<close>

record 'w wts_state =
  weights :: "(string, 'w) dict"
  weight_count :: nat

definition wts_init :: "'w wts_state" where
  "wts_init = \<lparr>weights = [], weight_count = 0\<rparr>"

definition wts_line :: "(string \<Rightarrow> 'w option) \<Rightarrow> string \<Rightarrow> 'w wts_state \<Rightarrow> exn + 'w wts_state" where
  "wts_line py_float raw s =
     (let line = strip raw in
      if line \<noteq> [] \<and> \<not> startswith ''#'' line then
        (let parts = split_ws line in
         if length parts \<ge> 2 then
           (case py_float (parts ! 1) of
              None \<Rightarrow> Inl ValueError
            | Some weight \<Rightarrow>
                Inr (s\<lparr>weights := AList.update (parts ! 0) weight (weights s),
                       weight_count := weight_count s + 1\<rparr>))
         else Inr s)
      else Inr s)"

definition parse_wts_file :: "(string \<Rightarrow> 'w option) \<Rightarrow> string list option \<Rightarrow> 'w wts_state" where
  "parse_wts_file py_float file =
     (case file of
        None \<Rightarrow> wts_init
      | Some lines \<Rightarrow> fst (for_lines (wts_line py_float) lines wts_init))"

section \<open>Floating-point division and fixed-point formatting\<close>

text \<open>
  The report divides two integers with \<open>/\<close> and prints the quotient with the format
  \<open>.2f\<close>. The quotient of two integers is the binary64 number nearest to the exact
  quotient (ties to the even significand), and \<open>OverflowError\<close> when that is beyond the
  largest finite one; the format prints the decimal with two fractional digits nearest to
  the exact value of the binary64 number (ties to even). A finite number is a sign and a
  magnitude \<open>m * 2 ^ e\<close>.
\<close>

datatype float = Finite bool nat int | Infinity bool

text \<open>The integer nearest to \<open>num / den\<close>, ties to even.\<close>

definition round_half_even :: "nat \<Rightarrow> nat \<Rightarrow> nat" where
  "round_half_even num den =
     (let q = num div den; r = num mod den
      in if 2 * r < den then q
         else if den < 2 * r then q + 1
         else if even q then q else q + 1)"

function bit_length :: "nat \<Rightarrow> nat" where
  "bit_length n = (if n = 0 then 0 else Suc (bit_length (n div 2)))"
  by pat_completeness auto
termination
  by (relation "measure id") auto

declare bit_length.simps [simp del]

text \<open>The integer \<open>e\<close> with \<open>2 ^ e \<le> num / den < 2 ^ (e + 1)\<close>, for positive arguments.\<close>

definition floor_log2 :: "nat \<Rightarrow> nat \<Rightarrow> int" where
  "floor_log2 num den =
     (let d = int (bit_length num) - int (bit_length den)
      in if (if 0 \<le> d then den * 2 ^ nat d \<le> num else den \<le> num * 2 ^ nat (- d))
         then d else d - 1)"

text \<open>
  The significand and exponent of the binary64 number nearest to \<open>num / den\<close>: 53 bits
  of precision, the exponent of the last place not below \<open>-1074\<close>.
\<close>

definition binary64 :: "nat \<Rightarrow> nat \<Rightarrow> nat \<times> int" where
  "binary64 num den =
     (if num = 0 then (0, 0)
      else
        (let ue = max (floor_log2 num den - 52) (- 1074);
             m = (if 0 \<le> ue then round_half_even num (den * 2 ^ nat ue)
                  else round_half_even (num * 2 ^ nat (- ue)) den)
         in (m, ue)))"

definition too_large :: "nat \<times> int \<Rightarrow> bool" where
  "too_large v = (case v of (m, e) \<Rightarrow> 0 \<le> e \<and> 2 ^ 1024 \<le> m * 2 ^ nat e)"

definition py_truediv :: "int \<Rightarrow> int \<Rightarrow> exn + float" where
  "py_truediv a b =
     (if b = 0 then Inl ZeroDivisionError
      else
        (let v = binary64 (nat \<bar>a\<bar>) (nat \<bar>b\<bar>)
         in if too_large v then Inl OverflowError
            else Inr (Finite ((a < 0) \<noteq> (b < 0)) (fst v) (snd v))))"

text \<open>The product of a float and the integer 100: rounded, and infinite on overflow.\<close>

definition times_100 :: "float \<Rightarrow> float" where
  "times_100 x =
     (case x of
        Infinity neg \<Rightarrow> Infinity neg
      | Finite neg m e \<Rightarrow>
          (let v = (if 0 \<le> e then binary64 (m * 100 * 2 ^ nat e) 1
                    else binary64 (m * 100) (2 ^ nat (- e)))
           in if too_large v then Infinity neg else Finite neg (fst v) (snd v)))"

definition format_2f :: "float \<Rightarrow> string" where
  "format_2f x =
     (case x of
        Infinity neg \<Rightarrow> (if neg then ''-inf'' else ''inf'')
      | Finite neg m e \<Rightarrow>
          (let n = (if 0 \<le> e then m * 100 * 2 ^ nat e
                    else round_half_even (m * 100) (2 ^ nat (- e)))
           in (if neg then ''-'' else []) @ str_nat (n div 100) @ ''.''
                @ [digit_char (n mod 100 div 10), digit_char (n mod 10)]))"

section \<open>Bookshelf Analyzer: the NETS section of the report\<close>




section \<open>Fixed-Elements Visualizer\<close>

text \<open>
  The visualizer has readers of its own. They iterate over the open file, and their
  \<open>except\<close> clause returns a fresh empty value. The argument of a reader is
  \<^const>\<open>None\<close> when opening the file raises or reading it raises before the loop has
  ended, else the lines of the file.
\<close>

fun fev_scl_lines :: "string list \<Rightarrow> exn + int \<times> int" where
  "fev_scl_lines [] = Inr (0, 0)"
| "fev_scl_lines (raw # rest) =
     (let line = strip raw in
      if startswith ''SITEMAP'' line then
        (let parts = split_ws line in
         if length parts \<ge> 3 then
           (case py_int (parts ! 1) of None \<Rightarrow> Inl ValueError | Some width \<Rightarrow>
            (case py_int (parts ! 2) of None \<Rightarrow> Inl ValueError | Some height \<Rightarrow>
               Inr (width, height)))
         else fev_scl_lines rest)
      else fev_scl_lines rest)"

definition fev_parse_scl_file :: "string list option \<Rightarrow> int \<times> int" where
  "fev_parse_scl_file file =
     (case file of
        None \<Rightarrow> (0, 0)
      | Some lines \<Rightarrow> (case fev_scl_lines lines of Inl e \<Rightarrow> (0, 0) | Inr d \<Rightarrow> d))"

record fixed_instance =
  fi_name :: string
  fi_x :: int
  fi_y :: int
  fi_bel :: int

definition fev_pl_line :: "string \<Rightarrow> fixed_instance list \<Rightarrow> exn + fixed_instance list" where
  "fev_pl_line raw acc =
     (let line = strip raw in
      if line \<noteq> [] \<and> \<not> startswith ''#'' line then
        (let parts = split_ws line in
         if length parts \<ge> 5 \<and> last parts = ''FIXED'' then
           (case py_int (parts ! 1) of None \<Rightarrow> Inl ValueError | Some x \<Rightarrow>
            (case py_int (parts ! 2) of None \<Rightarrow> Inl ValueError | Some y \<Rightarrow>
            (case py_int (parts ! 3) of None \<Rightarrow> Inl ValueError | Some bel \<Rightarrow>
               Inr (acc @ [\<lparr>fi_name = parts ! 0, fi_x = x, fi_y = y, fi_bel = bel\<rparr>]))))
         else Inr acc)
      else Inr acc)"

definition fev_parse_pl_file :: "string list option \<Rightarrow> fixed_instance list" where
  "fev_parse_pl_file file =
     (case file of
        None \<Rightarrow> []
      | Some lines \<Rightarrow>
          (case for_lines fev_pl_line lines [] of
             (acc, None) \<Rightarrow> acc
           | (acc, Some e) \<Rightarrow> []))"

definition INSTANCE_COLORS_PALETTE :: "string list" where
  "INSTANCE_COLORS_PALETTE =
     [''#FF6B6B'', ''#4ECDC4'', ''#45B7D1'', ''#96CEB4'', ''#FFEAA7'',
      ''#DDA0DD'', ''#98D8C8'', ''#F7DC6F'', ''#BB8FCE'', ''#85C1E9'',
      ''#F8C471'', ''#82E0AA'', ''#F1948A'', ''#85C1E9'', ''#D7BDE2'']"

text \<open>A unit square added to the axes, at \<open>(x, y)\<close>.\<close>

record rectangle =
  rect_x :: int
  rect_y :: int
  rect_edgecolor :: string
  rect_facecolor :: string

text \<open>
  What the function puts on the figure: the rectangles in the order they are added,
  whether grid lines are switched on, the legend as (label, colour) pairs when there is
  one, and the lines of the statistics text.
\<close>

record figure =
  fig_patches :: "rectangle list"
  fig_grid :: bool
  fig_legend :: "(string \<times> string) list option"
  fig_stats :: "string list"

definition type_counter :: "(string, string) dict \<Rightarrow> fixed_instance list \<Rightarrow> (string, nat) dict" where
  "type_counter instance_types fixed =
     fold (\<lambda>inst c. case map_of instance_types (fi_name inst) of
                        Some t \<Rightarrow> counter_incr t c
                      | None \<Rightarrow> counter_incr ''UNKNOWN'' c) fixed []"

definition color_mapping :: "string list \<Rightarrow> string list \<Rightarrow> (string, string) dict" where
  "color_mapping palette keys =
     map (\<lambda>(i, t). (t, palette ! (i mod length palette))) (enumerate 0 (sort keys))"

definition most_common :: "(string, nat) dict \<Rightarrow> (string, nat) dict" where
  "most_common c = sort_key (\<lambda>kv. - int (snd kv)) c"

definition dict_truthy :: "('k, 'v) dict option \<Rightarrow> bool" where
  "dict_truthy d = (case d of None \<Rightarrow> False | Some m \<Rightarrow> m \<noteq> [])"

definition dict_of :: "('k, 'v) dict option \<Rightarrow> ('k, 'v) dict" where
  "dict_of d = (case d of None \<Rightarrow> [] | Some m \<Rightarrow> m)"

definition in_bounds :: "int \<Rightarrow> int \<Rightarrow> int \<Rightarrow> int \<Rightarrow> bool" where
  "in_bounds width height x y = (0 \<le> x \<and> x < width \<and> 0 \<le> y \<and> y < height)"

definition fixed_rectangle ::
  "(string, string) dict option \<Rightarrow> (string, string) dict \<Rightarrow> fixed_instance \<Rightarrow> rectangle" where
  "fixed_rectangle instance_types instance_colors inst =
     (let color =
        (case (if dict_truthy instance_types
               then map_of (dict_of instance_types) (fi_name inst) else None) of
           Some inst_type \<Rightarrow>
             (case map_of instance_colors inst_type of Some c \<Rightarrow> c | None \<Rightarrow> ''#FF6B6B'')
         | None \<Rightarrow> ''#FF6B6B'')
      in \<lparr>rect_x = fi_x inst, rect_y = fi_y inst,
          rect_edgecolor = ''black'', rect_facecolor = color\<rparr>)"

text \<open>
  Both visualizers size the canvas from \<open>width / 20\<close> and \<open>height / 20\<close>, clamped to
  fixed bounds. The size is not part of the figure here; the two divisions are, since
  each raises for an integer beyond the range of a float.
\<close>

definition canvas_size_error :: "int \<Rightarrow> int \<Rightarrow> exn option" where
  "canvas_size_error width height =
     (case py_truediv width 20 of
        Inl e \<Rightarrow> Some e
      | Inr fig_width \<Rightarrow>
          (case py_truediv height 20 of Inl e \<Rightarrow> Some e | Inr fig_height \<Rightarrow> None))"

text \<open>
  Both visualizers then create the array \<open>grid\<close> with
  \<open>np.full((height, width), '', dtype=object)\<close>. It raises \<open>ValueError\<close> for a negative
  dimension. Whether an array of any other shape can be created depends on the index type
  of numpy and on the memory of the machine: \<open>ValueError\<close> for a shape that is too big for
  the index type, \<open>MemoryError\<close> when the memory cannot be allocated. This is the
  parameter \<open>np_full\<close> of both visualizers: \<open>np_full height width\<close> is the exception
  raised for the shape, \<^const>\<open>None\<close> when the array is created.

  The result is \<^const>\<open>None\<close> when the function prints a message and returns before it
  creates a figure, and an exception when the canvas size or the coverage cannot be
  computed or the array cannot be created.
\<close>

definition create_fixed_elements_visualization ::
  "(int \<Rightarrow> int \<Rightarrow> exn option) \<Rightarrow> int \<Rightarrow> int \<Rightarrow> fixed_instance list \<Rightarrow>
   (string, string) dict option \<Rightarrow> exn + figure option" where
  "create_fixed_elements_visualization np_full width height fixed instance_types =
     (if width = 0 \<or> height = 0 then Inr None
      else if fixed = [] then Inr None
      else
        (let instance_colors =
               (if dict_truthy instance_types
                then color_mapping INSTANCE_COLORS_PALETTE
                       (map fst (type_counter (dict_of instance_types) fixed))
                else [(''FIXED'', ''#FF6B6B'')])
         in case canvas_size_error width height of
              Some e \<Rightarrow> Inl e
            | None \<Rightarrow>
            if height < 0 \<or> width < 0 then Inl ValueError
            else case np_full height width of
              Some e \<Rightarrow> Inl e
            | None \<Rightarrow>
              (let rects = map (fixed_rectangle instance_types instance_colors)
                             (filter (\<lambda>inst. in_bounds width height (fi_x inst) (fi_y inst)) fixed);
                   legend = (if dict_truthy instance_types \<and> length instance_colors \<le> 10
                             then Some instance_colors else None);
                   total = int (length fixed)
               in case (if width * height > 0
                        then map_sum id times_100 (py_truediv total (width * height))
                        else Inr (Finite False 0 0)) of
                    Inl e \<Rightarrow> Inl e
                  | Inr coverage_percent \<Rightarrow>
                      Inr (Some
                        \<lparr>fig_patches = rects,
                         fig_grid = (width * height \<le> 10000),
                         fig_legend = legend,
                         fig_stats =
                           [''Fixed Elements Statistics:'',
                            ''Total Fixed Instances: '' @ str_int total,
                            ''Grid Coverage: '' @ str_int total @ '' / ''
                               @ str_int (width * height) @ '' sites'',
                            ''Coverage: '' @ format_2f coverage_percent @ ''%'']
                           @ (if dict_truthy instance_types
                              then [[], ''By Instance Type:'']
                                   @ map (\<lambda>(t, n). ''  '' @ t @ '': '' @ str_nat n)
                                       (most_common
                                          (type_counter (dict_of instance_types) fixed))
                              else [])\<rparr>))))"

section \<open>Site-Map Visualizer\<close>

definition SITE_COLORS_PALETTE :: "string list" where
  "SITE_COLORS_PALETTE =
     [''#4CAF50'', ''#2196F3'', ''#FF9800'', ''#9C27B0'', ''#F44336'',
      ''#00BCD4'', ''#FFEB3B'', ''#795548'', ''#607D8B'', ''#E91E63'',
      ''#3F51B5'', ''#8BC34A'', ''#FF5722'', ''#9E9E9E'', ''#673AB7'']"

text \<open>
  The array \<open>grid\<close>: the type last written at a cell, the empty string where none was.
\<close>

definition fill_grid :: "int \<Rightarrow> int \<Rightarrow> (int \<times> int \<times> string) list \<Rightarrow> int \<times> int \<Rightarrow> string" where
  "fill_grid width height sites_list =
     fold (\<lambda>(x, y, site_type) grid.
             if in_bounds width height x y then grid((y, x) := site_type) else grid)
          sites_list (\<lambda>cell. [])"

definition site_cells :: "int \<Rightarrow> int \<Rightarrow> (int \<times> int) list" where
  "site_cells width height =
     concat (map (\<lambda>y. map (\<lambda>x. (int y, int x)) [0..<nat width]) [0..<nat height])"

definition site_counts :: "(int \<times> int \<times> string) list \<Rightarrow> (string, nat) dict" where
  "site_counts sites_list = fold (\<lambda>(x, y, site_type) c. counter_incr site_type c) sites_list []"

definition create_site_visualization ::
  "(int \<Rightarrow> int \<Rightarrow> exn option) \<Rightarrow> int \<Rightarrow> int \<Rightarrow> (int \<times> int \<times> string) list \<Rightarrow>
   string fset \<Rightarrow> exn + figure option" where
  "create_site_visualization np_full width height sites_list site_types =
     (if width = 0 \<or> height = 0 then Inr None
      else
        (let site_colors =
               color_mapping SITE_COLORS_PALETTE (sorted_list_of_set (fset site_types))
         in case canvas_size_error width height of
              Some e \<Rightarrow> Inl e
            | None \<Rightarrow>
            if height < 0 \<or> width < 0 then Inl ValueError
            else case np_full height width of
              Some e \<Rightarrow> Inl e
            | None \<Rightarrow>
              (let grid = fill_grid width height sites_list;
                   is_large_grid = (width * height > 10000);
                   rects = List.map_filter
                     (\<lambda>(y, x).
                        if grid (y, x) \<noteq> [] then
                          Some \<lparr>rect_x = x, rect_y = y, rect_edgecolor = ''black'',
                                rect_facecolor =
                                  (case map_of site_colors (grid (y, x)) of
                                     Some c \<Rightarrow> c | None \<Rightarrow> ''#E0E0E0'')\<rparr>
                        else if \<not> is_large_grid then
                          Some \<lparr>rect_x = x, rect_y = y, rect_edgecolor = ''lightgray'',
                                rect_facecolor = ''white''\<rparr>
                        else None)
                     (site_cells width height);
                   legend =
                     (if fcard site_types \<le> 10
                      then Some (map (\<lambda>site_type.
                                   (site_type,
                                    case map_of site_colors site_type of
                                      Some c \<Rightarrow> c | None \<Rightarrow> ''#E0E0E0''))
                                 (sorted_list_of_set (fset site_types)))
                      else None)
               in Inr (Some
                    \<lparr>fig_patches = rects,
                     fig_grid = (\<not> is_large_grid),
                     fig_legend = legend,
                     fig_stats =
                       ''Site Statistics:''
                       # map (\<lambda>(site_type, n). site_type @ '': '' @ str_nat n)
                           (sort_key fst (site_counts sites_list))\<rparr>))))"

section \<open>Notions used in the statements\<close>

text \<open>\<open>c[k]\<close> on a \<open>Counter\<close>: the count of a key, 0 for a key that is not there.\<close>

definition counter_get :: "('k, nat) dict \<Rightarrow> 'k \<Rightarrow> nat" where
  "counter_get c k = (case map_of c k of None \<Rightarrow> 0 | Some n \<Rightarrow> n)"




text \<open>
  A FIXED line of a .pl file is not empty, is not a comment, has at least five tokens and
  ends in the token \<open>FIXED\<close>. The reader stops at the first FIXED line with a coordinate
  that is not an integer; the lines captured as fixed placements are the FIXED lines
  before that line.
\<close>

definition fixed_line :: "string \<Rightarrow> bool" where
  "fixed_line l =
     (strip l \<noteq> [] \<and> \<not> startswith ''#'' (strip l) \<and> length (split_ws (strip l)) \<ge> 5 \<and>
      last (split_ws (strip l)) = ''FIXED'')"

definition pl_raises :: "string \<Rightarrow> bool" where
  "pl_raises l =
     (fixed_line l \<and>
      (py_int (split_ws (strip l) ! 1) = None \<or> py_int (split_ws (strip l) ! 2) = None \<or>
       py_int (split_ws (strip l) ! 3) = None))"

definition captured_names :: "string list \<Rightarrow> string list" where
  "captured_names lines =
     map (\<lambda>l. split_ws (strip l) ! 0)
       (filter fixed_line (takeWhile (\<lambda>l. \<not> pl_raises l) lines))"

text \<open>An instance name is absent when there is no .nodes map or the map has no such key.\<close>

definition absent :: "(string, string) dict option \<Rightarrow> string \<Rightarrow> bool" where
  "absent instances n = (case instances of None \<Rightarrow> True | Some m \<Rightarrow> n \<notin> fst ` set m)"

definition counted_as :: "(string, string) dict option \<Rightarrow> string \<Rightarrow> string" where
  "counted_as instances n =
     (if absent instances n then ''UNKNOWN'' else the (map_of (dict_of instances) n))"




section \<open>Strings and dictionaries: basic facts\<close>

lemmas string_defs =
  strip_def startswith_def isspace_def isdigit_def digit_val_def py_int_def py_nat_def


lemma strip_cases: "strip s = [] \<or> \<not> isspace (hd (strip s))"
proof (cases "dropWhile isspace s")
  case Nil
  show ?thesis unfolding strip_def Nil by simp
next
  case (Cons x xs)
  then have nx: "\<not> isspace x"
    using hd_dropWhile [of isspace s] by (metis list.sel(1) list.simps(3))
  have "dropWhile isspace (rev xs @ [x]) = dropWhile isspace (rev xs) @ [x]"
    using nx by (simp add: dropWhile_append3 dropWhile_append)
  then show ?thesis unfolding strip_def Cons using nx by simp
qed

lemma startswith_Cons: "startswith (c # p) s \<Longrightarrow> s \<noteq> [] \<and> hd s = c"
  by (cases s) (auto simp: startswith_def)

lemma strip_not_tab: "\<not> startswith [CHR 0x09] (strip s)"
  using strip_cases [of s] by (auto dest!: startswith_Cons simp: isspace_def)




lemma update_set_mem: "p \<in> set (AList.update k v al) \<Longrightarrow> p = (k, v) \<or> p \<in> set al"
  by (induction al) (auto split: if_splits)

lemma counter_get_incr:
  "counter_get (counter_incr k c) t = (if t = k then counter_get c t + 1 else counter_get c t)"
  by (simp add: counter_get_def counter_incr_def AList.update_conv' split: option.splits)

lemma counter_total_incr: "counter_total (counter_incr k c) = Suc (counter_total c)"
  by (induction c) (auto simp: counter_total_def counter_incr_def)

lemma absent_iff:
  "absent instances n = (case instances of None \<Rightarrow> True | Some m \<Rightarrow> map_of m n = None)"
  by (simp add: absent_def map_of_eq_None_iff split: option.splits)

section \<open>The .nets reader: connections and the net count\<close>





text \<open>
  The reader strips a line before it tests it for a leading tab, and a stripped line
  starts with no whitespace: the branch that appends a connection is never taken.
\<close>

lemma nets_line_connections:
  "nets_line l s = Inr s' \<Longrightarrow> \<forall>n\<in>set (heap s). net_connections n = [] \<Longrightarrow>
   \<forall>n\<in>set (heap s'). net_connections n = []"
  by (auto simp: nets_line_def Let_def strip_not_tab split: if_splits option.splits)

lemma nets_loop_connections:
  "for_lines nets_line ls s = (s', e) \<Longrightarrow> \<forall>n\<in>set (heap s). net_connections n = [] \<Longrightarrow>
   \<forall>n\<in>set (heap s'). net_connections n = []"
proof (induction ls arbitrary: s)
  case Nil
  then show ?case by simp
next
  case (Cons l ls)
  then show ?case
    by (cases "nets_line l s") (auto dest: nets_line_connections)
qed

lemma nets_line_addresses:
  "nets_line l s = Inr s' \<Longrightarrow> \<forall>(k, a)\<in>set (nets s). a < length (heap s) \<Longrightarrow>
   \<forall>(k, a)\<in>set (nets s'). a < length (heap s')"
  by (fastforce simp: nets_line_def Let_def split: if_splits option.splits dest!: update_set_mem)

lemma nets_loop_addresses:
  "for_lines nets_line ls s = (s', e) \<Longrightarrow> \<forall>(k, a)\<in>set (nets s). a < length (heap s) \<Longrightarrow>
   \<forall>(k, a)\<in>set (nets s'). a < length (heap s')"
proof (induction ls arbitrary: s)
  case Nil
  then show ?case by simp
next
  case (Cons l ls)
  show ?case
  proof (cases "nets_line l s")
    case (Inl x)
    with Cons.prems show ?thesis by simp
  next
    case (Inr s1)
    with Cons.prems have "for_lines nets_line ls s1 = (s', e)" by simp
    moreover have "\<forall>(k, a)\<in>set (nets s1). a < length (heap s1)"
      using nets_line_addresses [OF Inr] Cons.prems(2) by blast
    ultimately show ?thesis by (rule Cons.IH)
  qed
qed

lemma nets_connections_always_empty:
  "(k, n) \<in> set (fst (parse_nets_file file)) \<Longrightarrow> net_connections n = []"
proof (cases "file")
  case None
  assume "(k, n) \<in> set (fst (parse_nets_file file))"
  with None show ?thesis by (simp add: parse_nets_file_def nets_result_def nets_init_def)
next
  case (Some lines)
  assume mem: "(k, n) \<in> set (fst (parse_nets_file file))"
  obtain s' e where run: "for_lines nets_line lines nets_init = (s', e)"
    by (cases "for_lines nets_line lines nets_init")
  have h: "\<forall>n\<in>set (heap s'). net_connections n = []"
    using nets_loop_connections [OF run] by (simp add: nets_init_def)
  have a: "\<forall>(k, a)\<in>set (nets s'). a < length (heap s')"
    using nets_loop_addresses [OF run] by (simp add: nets_init_def)
  from mem Some run obtain a' where "(k, a') \<in> set (nets s')" "n = heap s' ! a'"
    by (auto simp: parse_nets_file_def nets_result_def)
  with a h show ?thesis by (metis case_prodD nth_mem)
qed

text \<open>
  Claim C1. For the block \<open>net N1 2\<close>, two tab-prefixed connection lines \<open>I1 A\<close> and
  \<open>I2 B\<close>, and \<open>endnet\<close>, the claim expects net N1 with pin count 2 and the two
  connections in input order. The reader returns net N1 with pin count 2 and an empty
  connection list: it strips each line before it looks for the leading tab.
\<close>

theorem nets_reader_drops_connections:
  "parse_nets_file
     (Some [''net N1 2\<newline>'', CHR 0x09 # ''I1 A\<newline>'',
            CHR 0x09 # ''I2 B\<newline>'', ''endnet\<newline>''])
   = ([(''N1'', \<lparr>net_name = ''N1'', net_pin_count = 2, net_connections = []\<rparr>)], 1)"
  by (simp add: parse_nets_file_def nets_result_def nets_init_def nets_line_def string_defs)



section \<open>The .scl reader: which SITEMAP line gives the dimensions\<close>

text \<open>
  The Fixed-Elements Visualizer leaves its loop at the first \<open>SITEMAP\<close> line with three
  tokens, so the first such line gives its dimensions.
\<close>

lemma visualizer_sitemap_first_occurrence_wins:
  "fev_parse_scl_file
     (Some [''SITEMAP 2 3\<newline>'', ''END SITEMAP\<newline>'',
            ''SITEMAP 5 7\<newline>'']) = (2, 3)"
  by (simp add: fev_parse_scl_file_def string_defs)

text \<open>
  Claim C2. For an .scl input with more than one \<open>SITEMAP\<close> line with integer
  dimensions, the claim expects the dimensions of the first one. The Analyzer's reader
  assigns the dimensions at every such line: for the lines \<open>SITEMAP 2 3\<close>,
  \<open>END SITEMAP\<close>, \<open>SITEMAP 5 7\<close> it returns the dimensions of the last one, (5, 7).
\<close>

theorem analyzer_sitemap_last_occurrence_wins:
  "sitemap_dimensions
     (parse_scl_file
        (Some [''SITEMAP 2 3\<newline>'', ''END SITEMAP\<newline>'',
               ''SITEMAP 5 7\<newline>''])) = Some (5, 7)"
  by (simp add: parse_scl_file_def scl_init_def scl_line_def string_defs)

section \<open>What a reader returns after an exception\<close>

text \<open>
  The Fixed-Elements Visualizer's .pl reader returns a fresh empty list from its
  \<open>except\<close> clause.
\<close>

lemma visualizer_reader_returns_empty:
  "fev_parse_pl_file
     (Some [''A 1 2 0 FIXED\<newline>'', ''B x 2 0 FIXED\<newline>'',
            ''C 3 4 0 FIXED\<newline>'']) = []"
  by (simp add: fev_parse_pl_file_def fev_pl_line_def string_defs)

text \<open>
  The Analyzer's readers return their variables as the loop left them: what the lines
  before the failing one stored is kept. For the .wts reader, whatever \<open>float\<close> accepts:
\<close>

lemma wts_reader_keeps_partial_result:
  "py_float ''0.5'' = Some w \<Longrightarrow> py_float ''abc'' = None \<Longrightarrow>
   parse_wts_file py_float (Some [''n1 0.5\<newline>'', ''n2 abc\<newline>''])
     = \<lparr>weights = [(''n1'', w)], weight_count = 1\<rparr>"
  by (simp add: parse_wts_file_def wts_init_def wts_line_def string_defs)

text \<open>
  Claim C3. When a line in the middle of a file raises (here the coordinate \<open>x\<close> of the
  second FIXED line of a .pl file is not an integer), the claim expects the empty result
  of the reader. The Analyzer's .pl reader returns the placement and the type count of the
  line before the failing one.
\<close>

theorem analyzer_reader_keeps_partial_result:
  "parse_pl_file (Some [])
     (Some [''A 1 2 0 FIXED\<newline>'', ''B x 2 0 FIXED\<newline>'',
            ''C 3 4 0 FIXED\<newline>''])
   = \<lparr>fixed_instances = [(''A'', \<lparr>fp_x = 1, fp_y = 2, fp_bel = 0\<rparr>)],
      fixed_types = [(''UNKNOWN'', 1)]\<rparr>"
  by (simp add: parse_pl_file_def pl_init_def pl_line_def counter_incr_def string_defs)

section \<open>The .pl reader: fixed placements and their types\<close>

lemma pl_line_raises: "pl_raises l \<Longrightarrow> pl_line inst l s = Inl ValueError"
  by (auto simp: pl_raises_def fixed_line_def pl_line_def Let_def split: option.splits)

lemma pl_line_fixed:
  "fixed_line l \<Longrightarrow> \<not> pl_raises l \<Longrightarrow>
   \<exists>s' fp. pl_line inst l s = Inr s' \<and>
        fixed_instances s' = AList.update (split_ws (strip l) ! 0) fp (fixed_instances s) \<and>
        fixed_types s' = counter_incr (counted_as inst (split_ws (strip l) ! 0)) (fixed_types s)"
  by (auto simp: pl_raises_def fixed_line_def pl_line_def Let_def counted_as_def absent_iff
        dict_of_def split: option.splits)

lemma pl_line_other: "\<not> fixed_line l \<Longrightarrow> pl_line inst l s = Inr s"
  by (auto simp: fixed_line_def pl_line_def Let_def)

lemma pl_loop:
  "for_lines (pl_line inst) ls s = (s', e) \<Longrightarrow>
     counter_total (fixed_types s') = counter_total (fixed_types s) + length (captured_names ls) \<and>
     counter_get (fixed_types s') t =
       counter_get (fixed_types s) t + length [n \<leftarrow> captured_names ls. counted_as inst n = t] \<and>
     set (map fst (fixed_instances s')) =
       set (map fst (fixed_instances s)) \<union> set (captured_names ls) \<and>
     (distinct (map fst (fixed_instances s)) \<longrightarrow> distinct (map fst (fixed_instances s')))"
proof (induction ls arbitrary: s)
  case Nil
  then show ?case by (simp add: captured_names_def)
next
  case (Cons l ls)
  show ?case
  proof (cases "pl_raises l")
    case True
    with Cons.prems show ?thesis
      by (simp add: pl_line_raises captured_names_def)
  next
    case nr: False
    show ?thesis
    proof (cases "fixed_line l")
      case True
      from pl_line_fixed [OF True nr, of inst s] obtain s1 fp where
        s1: "pl_line inst l s = Inr s1"
            "fixed_instances s1 = AList.update (split_ws (strip l) ! 0) fp (fixed_instances s)"
            "fixed_types s1 = counter_incr (counted_as inst (split_ws (strip l) ! 0)) (fixed_types s)"
        by blast
      from Cons.prems s1 have "for_lines (pl_line inst) ls s1 = (s', e)" by simp
      from Cons.IH [OF this] s1 True nr show ?thesis
        by (auto simp: captured_names_def AList.dom_update AList.distinct_update
              counter_total_incr counter_get_incr)
    next
      case False
      from Cons.prems pl_line_other [OF False, of inst s]
      have "for_lines (pl_line inst) ls s = (s', e)" by simp
      from Cons.IH [OF this] False nr show ?thesis
        by (auto simp: captured_names_def)
    qed
  qed
qed

text \<open>Three FIXED lines and a line that is not one, for the examples below.\<close>

lemma pl_A_line:
  "fixed_line ''A 1 2 0 FIXED\<newline>''" "\<not> pl_raises ''A 1 2 0 FIXED\<newline>''"
  "split_ws (strip ''A 1 2 0 FIXED\<newline>'') ! 0 = ''A''"
  by (simp_all add: fixed_line_def pl_raises_def string_defs)

lemma pl_A2_line:
  "fixed_line ''A 3 4 1 FIXED\<newline>''" "\<not> pl_raises ''A 3 4 1 FIXED\<newline>''"
  "split_ws (strip ''A 3 4 1 FIXED\<newline>'') ! 0 = ''A''"
  by (simp_all add: fixed_line_def pl_raises_def string_defs)

lemma pl_C_line:
  "fixed_line ''C 0 0 0 FIXED\<newline>''" "\<not> pl_raises ''C 0 0 0 FIXED\<newline>''"
  "split_ws (strip ''C 0 0 0 FIXED\<newline>'') ! 0 = ''C''"
  by (simp_all add: fixed_line_def pl_raises_def string_defs)



lemma captured_names_example_2: "captured_names [''A 1 2 0 FIXED\<newline>'', ''A 3 4 1 FIXED\<newline>'',
                     ''C 0 0 0 FIXED\<newline>''] = [''A'', ''A'', ''C'']"
  by (simp add: captured_names_def pl_A_line pl_A2_line pl_C_line)

text \<open>
  Claim C7. In the Analyzer's .pl reader every captured fixed placement is counted in the
  fixed-type distribution, none is dropped: the counts sum to the number of captured
  lines. The count under \<open>UNKNOWN\<close> is the number of captured lines whose instance name is
  absent from the .nodes map (or has the cell type \<open>UNKNOWN\<close> there); with no .nodes map
  or an empty one, every captured line is counted under \<open>UNKNOWN\<close>.
\<close>

theorem fixed_types_unknown_fallback:
  "counter_get (fixed_types (parse_pl_file instances (Some lines))) ''UNKNOWN''
     = length [n \<leftarrow> captured_names lines.
                 absent instances n \<or> map_of (dict_of instances) n = Some ''UNKNOWN''] \<and>
   counter_total (fixed_types (parse_pl_file instances (Some lines)))
     = length (captured_names lines) \<and>
   (dict_of instances = [] \<longrightarrow>
      counter_get (fixed_types (parse_pl_file instances (Some lines))) ''UNKNOWN''
        = length (captured_names lines))"
proof -
  obtain s' e where run: "for_lines (pl_line instances) lines pl_init = (s', e)"
    by (cases "for_lines (pl_line instances) lines pl_init")
  have res: "parse_pl_file instances (Some lines) = s'"
    using run by (simp add: parse_pl_file_def)
  from pl_loop [OF run, of "''UNKNOWN''"]
  have tot: "counter_total (fixed_types s') = length (captured_names lines)"
    and unk: "counter_get (fixed_types s') ''UNKNOWN''
                = length [n \<leftarrow> captured_names lines. counted_as instances n = ''UNKNOWN'']"
    by (simp_all add: pl_init_def counter_total_def counter_get_def)
  have eq: "counted_as instances n = ''UNKNOWN'' \<longleftrightarrow>
            absent instances n \<or> map_of (dict_of instances) n = Some ''UNKNOWN''" for n
    by (auto simp: counted_as_def absent_iff dict_of_def split: option.splits)
  have empty: "dict_of instances = [] \<Longrightarrow> absent instances n" for n
    by (auto simp: absent_def dict_of_def split: option.splits)
  show ?thesis using res tot unk eq empty by simp
qed

theorem fixed_types_unknown_fallback_witness:
  "counter_get
     (fixed_types
        (parse_pl_file (Some [(''C'', ''LUT6'')])
           (Some [''A 1 2 0 FIXED\<newline>'', ''A 3 4 1 FIXED\<newline>'',
                  ''C 0 0 0 FIXED\<newline>'']))) ''UNKNOWN'' = 2 \<and>
   counter_get
     (fixed_types
        (parse_pl_file (Some [])
           (Some [''A 1 2 0 FIXED\<newline>'', ''A 3 4 1 FIXED\<newline>'',
                  ''C 0 0 0 FIXED\<newline>'']))) ''UNKNOWN'' = 3"
  using fixed_types_unknown_fallback
          [of "Some [(''C'', ''LUT6'')]"
              "[''A 1 2 0 FIXED\<newline>'', ''A 3 4 1 FIXED\<newline>'',
                ''C 0 0 0 FIXED\<newline>'']"]
        fixed_types_unknown_fallback
          [of "Some []"
              "[''A 1 2 0 FIXED\<newline>'', ''A 3 4 1 FIXED\<newline>'',
                ''C 0 0 0 FIXED\<newline>'']"]
  unfolding captured_names_example_2 by (simp add: absent_def dict_of_def)



section \<open>The .scl reader: the cap on stored entries and the exact count\<close>





















section \<open>The float division stays in range\<close>

lemma bit_length_upper: "n < 2 ^ bit_length n"
proof (induction n rule: bit_length.induct)
  case (1 n)
  show ?case
  proof (cases "n = 0")
    case True
    then show ?thesis by (subst bit_length.simps) simp
  next
    case False
    with 1 have ih: "n div 2 < 2 ^ bit_length (n div 2)" by simp
    have "bit_length n = Suc (bit_length (n div 2))"
      using False by (subst bit_length.simps) simp
    with ih show ?thesis by simp
  qed
qed

lemma bit_length_lower: "0 < n \<Longrightarrow> 2 ^ (bit_length n - 1) \<le> n"
proof (induction n rule: bit_length.induct)
  case (1 n)
  then have n0: "n \<noteq> 0" by simp
  have bl: "bit_length n = Suc (bit_length (n div 2))"
    using n0 by (subst bit_length.simps) simp
  show ?case
  proof (cases "n div 2 = 0")
    case True
    then have "bit_length (n div 2) = 0" by (subst bit_length.simps) simp
    with bl 1(2) show ?thesis by simp
  next
    case False
    with 1(1) [OF n0] have ih: "2 ^ (bit_length (n div 2) - 1) \<le> n div 2" by simp
    have pos: "0 < bit_length (n div 2)"
      using False by (subst bit_length.simps) simp
    have "(2::nat) ^ bit_length (n div 2) = 2 * 2 ^ (bit_length (n div 2) - 1)"
      using pos by (cases "bit_length (n div 2)") simp_all
    with ih bl show ?thesis by simp
  qed
qed

lemma floor_log2_less:
  assumes "0 < num" "0 < den" "num < den * 2 ^ k"
  shows "floor_log2 num den < int k"
proof -
  define d where "d = int (bit_length num) - int (bit_length den)"
  have le_k: "d \<le> int k"
  proof (rule ccontr)
    assume "\<not> d \<le> int k"
    then have "bit_length den + k < bit_length num" by (simp add: d_def)
    then have "bit_length den + k \<le> bit_length num - 1" by simp
    then have "(2::nat) ^ (bit_length den + k) \<le> 2 ^ (bit_length num - 1)"
      by (rule power_increasing) simp
    also have "\<dots> \<le> num" by (rule bit_length_lower [OF assms(1)])
    finally have "2 ^ bit_length den * 2 ^ k \<le> num" by (simp add: power_add)
    moreover have "den * 2 ^ k < 2 ^ bit_length den * 2 ^ k"
      using bit_length_upper [of den] by simp
    ultimately show False using assms(3) by simp
  qed
  show ?thesis
  proof (cases "0 \<le> d \<and> den * 2 ^ nat d \<le> num")
    case True
    then have "den * 2 ^ nat d \<le> num" by simp
    from this assms(3) have "den * 2 ^ nat d < den * 2 ^ k" by (rule le_less_trans)
    then have "(2::nat) ^ nat d < 2 ^ k" using assms(2) by simp
    then have "nat d < k" by simp
    with True show ?thesis by (simp add: floor_log2_def d_def [symmetric] Let_def)
  next
    case False
    then show ?thesis using le_k
      by (auto simp: floor_log2_def d_def [symmetric] Let_def)
  qed
qed

lemma round_half_even_le: "round_half_even n d \<le> n div d + 1"
  by (simp add: round_half_even_def Let_def)

lemma quotient_bound:
  fixes q :: nat
  assumes "q * (den * p) \<le> num" "num < den * b" "0 < den"
  shows "q * p < b"
proof -
  from assms(1,2) have "q * (den * p) < den * b" by (rule le_less_trans)
  then have "den * (q * p) < den * b" by (simp add: ac_simps)
  then show ?thesis using assms(3) by simp
qed

lemma binary64_in_range:
  assumes "0 < den" "num < den * 2 ^ 1023"
  shows "\<not> too_large (binary64 num den)"
proof (cases "num = 0")
  case True
  then show ?thesis by (simp add: binary64_def too_large_def)
next
  case False
  then have np: "0 < num" by simp
  define ue where "ue = max (floor_log2 num den - 52) (- 1074)"
  have ue_le: "ue \<le> 970"
    using floor_log2_less [OF np assms] by (simp add: ue_def)
  show ?thesis
  proof (cases "0 \<le> ue")
    case False
    with \<open>num \<noteq> 0\<close> show ?thesis
      by (simp add: binary64_def too_large_def ue_def [symmetric] Let_def)
  next
    case True
    define u where "u = nat ue"
    have u_le: "u \<le> 970" using ue_le by (simp add: u_def)
    define q where "q = num div (den * 2 ^ u)"
    define m where "m = round_half_even num (den * 2 ^ u)"
    have "q * (den * 2 ^ u) \<le> num" by (simp add: q_def)
    from this assms(2,1) have q1: "q * 2 ^ u < 2 ^ 1023" by (rule quotient_bound)
    have p: "(2::nat) ^ u \<le> 2 ^ 970" using u_le by (rule power_increasing) simp
    have "m \<le> q + 1" unfolding m_def q_def by (rule round_half_even_le)
    then have "m * 2 ^ u \<le> (q + 1) * 2 ^ u" by (rule mult_le_mono1)
    also have "\<dots> = q * 2 ^ u + 2 ^ u" by (simp add: algebra_simps)
    also have "\<dots> < 2 ^ 1023 + 2 ^ 970" using q1 p by (rule add_less_le_mono)
    also have "\<dots> \<le> (2::nat) ^ 1024" by simp
    finally have "m * 2 ^ u < 2 ^ 1024" .
    then have "\<not> (2::nat) ^ 1024 \<le> m * 2 ^ u" by (simp only: not_le)
    moreover have "binary64 num den = (m, ue)"
      using True \<open>num \<noteq> 0\<close>
      by (simp only: binary64_def ue_def [symmetric] Let_def m_def u_def if_False if_True)
    ultimately show ?thesis
      by (simp only: too_large_def prod.case u_def [symmetric] simp_thms)
  qed
qed

lemma py_truediv_in_range:
  assumes "0 < b" "\<bar>a\<bar> < b * 2 ^ 1023"
  shows "\<exists>f. py_truediv a b = Inr f"
proof -
  have "nat \<bar>a\<bar> < nat \<bar>b\<bar> * 2 ^ 1023"
  proof -
    have "int (nat \<bar>a\<bar>) < int (nat \<bar>b\<bar> * 2 ^ 1023)" using assms by simp
    then show ?thesis by linarith
  qed
  moreover have "0 < nat \<bar>b\<bar>" using assms(1) by simp
  ultimately have "\<not> too_large (binary64 (nat \<bar>a\<bar>) (nat \<bar>b\<bar>))"
    using binary64_in_range by blast
  with assms(1) show ?thesis by (simp add: py_truediv_def Let_def)
qed



lemma less_scaled:
  fixes a b B :: int
  assumes "0 < b" "a < B" "0 \<le> B"
  shows "a < b * B"
proof -
  have "1 * B \<le> b * B" using assms(1,3) by (intro mult_right_mono) simp_all
  with assms(2) show ?thesis by simp
qed

lemma canvas_size_ok:
  assumes "0 < width" "width < 2 ^ 1023" "0 < height" "height < 2 ^ 1023"
  shows "canvas_size_error width height = None"
proof -
  have "width < 20 * 2 ^ 1023" using _ assms(2) by (rule less_scaled) simp_all
  then have "\<bar>width\<bar> < 20 * 2 ^ 1023" using assms(1) by simp
  from py_truediv_in_range [OF _ this] obtain fw where w: "py_truediv width 20 = Inr fw"
    by auto
  have "height < 20 * 2 ^ 1023" using _ assms(4) by (rule less_scaled) simp_all
  then have "\<bar>height\<bar> < 20 * 2 ^ 1023" using assms(3) by simp
  from py_truediv_in_range [OF _ this] obtain fh where h: "py_truediv height 20 = Inr fh"
    by auto
  show ?thesis by (simp add: canvas_size_error_def w h)
qed

section \<open>Site-Map Visualizer: the legend\<close>

text \<open>
  Claim C8. For a fabric of positive width and height (each below \<open>2 ^ 1023\<close>, so that
  the canvas size is a float) the Site-Map Visualizer draws a figure when the array of
  that shape can be created, and raises the exception of \<open>np.full\<close> when it cannot. In
  every figure it draws there is a legend if and only if there are at most 10 distinct
  site types: with exactly 10 it is there, with exactly 11 it is not.
\<close>

theorem legend_iff_at_most_ten_types:
  "(0 < width \<and> width < 2 ^ 1023 \<and> 0 < height \<and> height < 2 ^ 1023 \<longrightarrow>
      (np_full height width = None \<longrightarrow>
         (\<exists>fig. create_site_visualization np_full width height sites_list site_types
                   = Inr (Some fig))) \<and>
      (\<forall>e. np_full height width = Some e \<longrightarrow>
         create_site_visualization np_full width height sites_list site_types = Inl e)) \<and>
   (\<forall>fig. create_site_visualization np_full width height sites_list site_types
            = Inr (Some fig) \<longrightarrow>
      (fig_legend fig \<noteq> None \<longleftrightarrow> fcard site_types \<le> 10))"
proof (intro conjI allI impI)
  assume "0 < width \<and> width < 2 ^ 1023 \<and> 0 < height \<and> height < 2 ^ 1023"
    and "np_full height width = None"
  then have "canvas_size_error width height = None" "0 < width" "0 < height"
    "np_full height width = None"
    by (simp_all add: canvas_size_ok)
  then show "\<exists>fig. create_site_visualization np_full width height sites_list site_types
               = Inr (Some fig)"
    by (simp add: create_site_visualization_def Let_def)
next
  fix e
  assume "0 < width \<and> width < 2 ^ 1023 \<and> 0 < height \<and> height < 2 ^ 1023"
    and "np_full height width = Some e"
  then have "canvas_size_error width height = None" "0 < width" "0 < height"
    "np_full height width = Some e"
    by (simp_all add: canvas_size_ok)
  then show "create_site_visualization np_full width height sites_list site_types = Inl e"
    by (simp add: create_site_visualization_def Let_def)
next
  fix fig
  assume "create_site_visualization np_full width height sites_list site_types
            = Inr (Some fig)"
  then show "fig_legend fig \<noteq> None \<longleftrightarrow> fcard site_types \<le> 10"
    by (auto simp: create_site_visualization_def Let_def split: if_splits option.splits)
qed

theorem legend_iff_at_most_ten_types_witness:
  "(\<exists>fig. create_site_visualization (\<lambda>h w. if h * w < 1000 then None else Some MemoryError) 4 3 []
            {|''A'', ''B'', ''C'', ''D'', ''E'', ''F'', ''G'', ''H'', ''I'', ''J''|}
            = Inr (Some fig) \<and>
          fig_legend fig \<noteq> None) \<and>
   (\<exists>fig. create_site_visualization (\<lambda>h w. if h * w < 1000 then None else Some MemoryError) 4 3 []
            {|''A'', ''B'', ''C'', ''D'', ''E'', ''F'', ''G'', ''H'', ''I'', ''J'', ''K''|}
            = Inr (Some fig) \<and>
          fig_legend fig = None) \<and>
   create_site_visualization (\<lambda>h w. if h * w < 1000 then None else Some MemoryError) 400 300 []
     {|''A''|} = Inl MemoryError"
proof -
  let ?np = "\<lambda>h w :: int. if h * w < 1000 then None else Some MemoryError"
  let ?ten = "{|''A'', ''B'', ''C'', ''D'', ''E'', ''F'', ''G'', ''H'', ''I'', ''J''|}"
  let ?eleven = "{|''A'', ''B'', ''C'', ''D'', ''E'', ''F'', ''G'', ''H'', ''I'', ''J'', ''K''|}"
  have ten: "fcard ?ten = 10" by (simp add: fcard.rep_eq)
  have eleven: "fcard ?eleven = 11" by (simp add: fcard.rep_eq)
  have size: "(0::int) < 4 \<and> (4::int) < 2 ^ 1023 \<and> (0::int) < 3 \<and> (3::int) < 2 ^ 1023"
    by simp
  have big: "(0::int) < 400 \<and> (400::int) < 2 ^ 1023 \<and> (0::int) < 300 \<and> (300::int) < 2 ^ 1023"
    by simp
  have np: "?np 3 4 = None" "?np 300 400 = Some MemoryError" by simp_all
  note t10 = legend_iff_at_most_ten_types [of 4 3 ?np "[]" ?ten]
  note t11 = legend_iff_at_most_ten_types [of 4 3 ?np "[]" ?eleven]
  note tbig = legend_iff_at_most_ten_types [of 400 300 ?np "[]" "{|''A''|}"]
  from t10 size np(1) obtain f10 where
    e10: "create_site_visualization ?np 4 3 [] ?ten = Inr (Some f10)"
    by blast
  with t10 have "fig_legend f10 \<noteq> None \<longleftrightarrow> fcard ?ten \<le> 10" by blast
  then have l10: "fig_legend f10 \<noteq> None" unfolding ten by simp
  from t11 size np(1) obtain f11 where
    e11: "create_site_visualization ?np 4 3 [] ?eleven = Inr (Some f11)"
    by blast
  with t11 have "fig_legend f11 \<noteq> None \<longleftrightarrow> fcard ?eleven \<le> 10" by blast
  then have l11: "fig_legend f11 = None" unfolding eleven by simp
  from tbig big np(2) have
    ebig: "create_site_visualization ?np 400 300 [] {|''A''|} = Inl MemoryError"
    by blast
  from e10 l10 e11 l11 ebig show ?thesis by blast
qed

section \<open>Fixed-Elements Visualizer: bounds and the statistics overlay\<close>

lemma figure_produced:
  assumes "0 < width" "width < 2 ^ 1023" "0 < height" "height < 2 ^ 1023"
    "fixed \<noteq> []" "length fixed < 2 ^ 1023"
  shows "np_full height width = None \<longrightarrow>
           (\<exists>fig. create_fixed_elements_visualization np_full width height fixed instance_types
              = Inr (Some fig))"
    and "\<forall>e. np_full height width = Some e \<longrightarrow>
           create_fixed_elements_visualization np_full width height fixed instance_types = Inl e"
proof -
  have wh: "0 < width * height" using assms(1,3) by (rule mult_pos_pos)
  have "int (length fixed) < 2 ^ 1023"
  proof -
    have "int (length fixed) < int (2 ^ 1023)" using assms(6) by (simp only: of_nat_less_iff)
    then show ?thesis by simp
  qed
  with wh have "int (length fixed) < width * height * 2 ^ 1023"
    by (rule less_scaled) simp
  then have "\<bar>int (length fixed)\<bar> < width * height * 2 ^ 1023" by simp
  from py_truediv_in_range [OF wh this] obtain f where
    "py_truediv (int (length fixed)) (width * height) = Inr f" by blast
  with assms(1,3,5) wh canvas_size_ok [OF assms(1-4)]
  show "np_full height width = None \<longrightarrow>
           (\<exists>fig. create_fixed_elements_visualization np_full width height fixed instance_types
              = Inr (Some fig))"
    and "\<forall>e. np_full height width = Some e \<longrightarrow>
           create_fixed_elements_visualization np_full width height fixed instance_types = Inl e"
    by (simp_all add: create_fixed_elements_visualization_def Let_def)
qed

lemma figure_contents:
  assumes "create_fixed_elements_visualization np_full width height fixed instance_types
             = Inr (Some fig)"
  shows "map (\<lambda>r. (rect_x r, rect_y r)) (fig_patches fig)
           = map (\<lambda>inst. (fi_x inst, fi_y inst))
               [inst \<leftarrow> fixed. in_bounds width height (fi_x inst) (fi_y inst)] \<and>
         (\<forall>inst\<in>set fixed. \<not> in_bounds width height (fi_x inst) (fi_y inst) \<longrightarrow>
            (\<forall>r\<in>set (fig_patches fig). (rect_x r, rect_y r) \<noteq> (fi_x inst, fi_y inst))) \<and>
         fig_stats fig ! 1 = ''Total Fixed Instances: '' @ str_int (int (length fixed))"
proof -
  from assms have
    p: "fig_patches fig =
          map (fixed_rectangle instance_types
                 (if dict_truthy instance_types
                  then color_mapping INSTANCE_COLORS_PALETTE
                         (map fst (type_counter (dict_of instance_types) fixed))
                  else [(''FIXED'', ''#FF6B6B'')]))
            [inst \<leftarrow> fixed. in_bounds width height (fi_x inst) (fi_y inst)]"
    and st: "fig_stats fig ! 1 = ''Total Fixed Instances: '' @ str_int (int (length fixed))"
    by (auto simp: create_fixed_elements_visualization_def Let_def
          split: if_splits sum.splits option.splits)
  have pos: "map (\<lambda>r. (rect_x r, rect_y r)) (fig_patches fig)
           = map (\<lambda>inst. (fi_x inst, fi_y inst))
               [inst \<leftarrow> fixed. in_bounds width height (fi_x inst) (fi_y inst)]"
    unfolding p by (simp add: fixed_rectangle_def Let_def)
  have "(rect_x r, rect_y r) \<noteq> (fi_x inst, fi_y inst)"
    if "r \<in> set (fig_patches fig)" "\<not> in_bounds width height (fi_x inst) (fi_y inst)" for r inst
  proof -
    from that(1) have "(rect_x r, rect_y r) \<in> set (map (\<lambda>r. (rect_x r, rect_y r)) (fig_patches fig))"
      by simp
    then obtain i where "i \<in> set fixed" "in_bounds width height (fi_x i) (fi_y i)"
      "(rect_x r, rect_y r) = (fi_x i, fi_y i)"
      unfolding pos by auto
    with that(2) show ?thesis by auto
  qed
  with pos st show ?thesis by blast
qed

text \<open>
  Claim C6. For a fabric of positive width and height and a non-empty list of fixed
  instances (all three numbers below \<open>2 ^ 1023\<close>, so that the canvas size and the
  coverage are floats) the Fixed-Elements Visualizer produces a figure when the array of
  that shape can be created, and raises the exception of \<open>np.full\<close> when it cannot. In
  every figure it produces, the rectangles are those of the fixed instances inside
  \<open>[0, width) \<times> [0, height)\<close>, in order; no rectangle is drawn at the coordinates of an
  instance outside these bounds (as \<open>x = -1\<close> or \<open>x = width\<close>). The line
  \<open>Total Fixed Instances\<close> of the statistics shows the length of the whole list of fixed
  instances.
\<close>

theorem out_of_bounds_not_drawn_but_counted:
  "(0 < width \<and> width < 2 ^ 1023 \<and> 0 < height \<and> height < 2 ^ 1023 \<and>
    fixed \<noteq> [] \<and> length fixed < 2 ^ 1023 \<longrightarrow>
      (np_full height width = None \<longrightarrow>
         (\<exists>fig. create_fixed_elements_visualization np_full width height fixed instance_types
                   = Inr (Some fig))) \<and>
      (\<forall>e. np_full height width = Some e \<longrightarrow>
         create_fixed_elements_visualization np_full width height fixed instance_types
           = Inl e)) \<and>
   (\<forall>fig. create_fixed_elements_visualization np_full width height fixed instance_types
            = Inr (Some fig) \<longrightarrow>
      map (\<lambda>r. (rect_x r, rect_y r)) (fig_patches fig)
        = map (\<lambda>inst. (fi_x inst, fi_y inst))
            [inst \<leftarrow> fixed. in_bounds width height (fi_x inst) (fi_y inst)] \<and>
      (\<forall>inst\<in>set fixed. \<not> in_bounds width height (fi_x inst) (fi_y inst) \<longrightarrow>
         (\<forall>r\<in>set (fig_patches fig). (rect_x r, rect_y r) \<noteq> (fi_x inst, fi_y inst))) \<and>
      fig_stats fig ! 1 = ''Total Fixed Instances: '' @ str_int (int (length fixed)))"
  using figure_produced [of width height fixed np_full instance_types]
        figure_contents [of np_full width height fixed instance_types]
  by blast

theorem out_of_bounds_not_drawn_but_counted_witness:
  "(\<exists>fig. create_fixed_elements_visualization
            (\<lambda>h w. if h * w < 1000 then None else Some MemoryError) 4 4
            [\<lparr>fi_name = ''A'', fi_x = 1, fi_y = 2, fi_bel = 0\<rparr>,
             \<lparr>fi_name = ''B'', fi_x = - 1, fi_y = 0, fi_bel = 0\<rparr>,
             \<lparr>fi_name = ''C'', fi_x = 4, fi_y = 0, fi_bel = 0\<rparr>] None = Inr (Some fig) \<and>
          map (\<lambda>r. (rect_x r, rect_y r)) (fig_patches fig) = [(1, 2)] \<and>
          fig_stats fig ! 1 = ''Total Fixed Instances: 3'') \<and>
   create_fixed_elements_visualization
     (\<lambda>h w. if h * w < 1000 then None else Some MemoryError) 400 400
     [\<lparr>fi_name = ''A'', fi_x = 1, fi_y = 2, fi_bel = 0\<rparr>] None = Inl MemoryError"
proof -
  let ?np = "\<lambda>h w :: int. if h * w < 1000 then None else Some MemoryError"
  let ?fixed = "[\<lparr>fi_name = ''A'', fi_x = 1, fi_y = 2, fi_bel = 0\<rparr>,
                 \<lparr>fi_name = ''B'', fi_x = - 1, fi_y = 0, fi_bel = 0\<rparr>,
                 \<lparr>fi_name = ''C'', fi_x = 4, fi_y = 0, fi_bel = 0\<rparr>]"
  let ?one = "[\<lparr>fi_name = ''A'', fi_x = 1, fi_y = 2, fi_bel = 0\<rparr>]"
  note main = out_of_bounds_not_drawn_but_counted [of 4 4 ?fixed ?np None]
  note big = out_of_bounds_not_drawn_but_counted [of 400 400 ?one ?np None]
  have np: "?np 4 4 = None" "?np 400 400 = Some MemoryError" by simp_all
  have "(0::int) < 4 \<and> (4::int) < 2 ^ 1023 \<and> (0::int) < 4 \<and> (4::int) < 2 ^ 1023 \<and>
        ?fixed \<noteq> [] \<and> length ?fixed < 2 ^ 1023" by simp
  with main np(1) obtain fig where
    ev: "create_fixed_elements_visualization ?np 4 4 ?fixed None = Inr (Some fig)" by blast
  with main have
    "map (\<lambda>r. (rect_x r, rect_y r)) (fig_patches fig)
       = map (\<lambda>inst. (fi_x inst, fi_y inst))
           [inst \<leftarrow> ?fixed. in_bounds 4 4 (fi_x inst) (fi_y inst)]"
    "fig_stats fig ! 1 = ''Total Fixed Instances: '' @ str_int (int (length ?fixed))"
    by blast+
  with ev have first:
    "\<exists>fig. create_fixed_elements_visualization ?np 4 4 ?fixed None = Inr (Some fig) \<and>
           map (\<lambda>r. (rect_x r, rect_y r)) (fig_patches fig) = [(1, 2)] \<and>
           fig_stats fig ! 1 = ''Total Fixed Instances: 3''"
    by (simp add: in_bounds_def str_int_def str_nat.simps digit_char_def)
  have "(0::int) < 400 \<and> (400::int) < 2 ^ 1023 \<and> (0::int) < 400 \<and> (400::int) < 2 ^ 1023 \<and>
        ?one \<noteq> [] \<and> length ?one < 2 ^ 1023" by simp
  with big np(2) have
    "create_fixed_elements_visualization ?np 400 400 ?one None = Inl MemoryError" by blast
  with first show ?thesis by blast
qed

section \<open>The report: statistics of the NETS section\<close>











end
